theory Spec2Isabelle
  imports Complex_Main "HOL-Library.Multiset"
begin

section \<open>Scottish Munros: nearest Munro Top of every Munro\<close>

text \<open>
  A shallow embedding of \<^verbatim>\<open>projects/2025/August/scottish_munros/python/exploration.py\<close>.
  The script is one forward pass: read the CSV, attach a point geometry to every row,
  keep the rows classified \<^verbatim>\<open>Munro\<close> and those classified \<^verbatim>\<open>Munro Top\<close>, look up for
  every Munro the nearest Munro Top, and take the mean and the median of the distances.

  Coordinates and distances are 64-bit floats in the script; they are read here as real
  numbers, so rounding, infinities and NaN coordinates are outside the model. A missing
  cell of the classification column (NaN in pandas) is \<open>None\<close>.
\<close>

subsection \<open>Data\<close>

type_synonym point = "real \<times> real"

text \<open>A row of the CSV, with the columns the script reads.\<close>

record csv_row =
  csv_Name :: string
  csv_Height_m :: real
  csv_Height_ft :: real
  xcoord :: real
  ycoord :: real
  csv_2021 :: "string option"

text \<open>A row after \<^verbatim>\<open>select(_.Name, _.Height_m, _.Height_ft, _['2021'], _.geometry)\<close>.\<close>

record peak =
  Name :: string
  Height_m :: real
  Height_ft :: real
  class_2021 :: "string option"
  geometry :: point

text \<open>A row of \<^verbatim>\<open>only_munros\<close> after the three \<^verbatim>\<open>mutate\<close> calls.\<close>

record matched = peak +
  closest_name :: string
  closest_geometry :: point
  closest_distance :: real

text \<open>
  A pandas frame (or series) is a list of rows (or values), each with its index label.
  \<^verbatim>\<open>read_csv\<close> labels the rows \<open>0, 1, 2, ...\<close>; \<^verbatim>\<open>filter\<close> and \<^verbatim>\<open>select\<close> keep the labels.
\<close>

type_synonym 'r frame = "(nat \<times> 'r) list"

datatype error = ValueError | KeyError | TypeError | ZeroDivisionError | StatisticsError

subsection \<open>Projection and partition\<close>

text \<open>
  \<^verbatim>\<open>gpd.GeoDataFrame(data=munros, crs=27700, geometry=gpd.points_from_xy(munros.xcoord, munros.ycoord))\<close>:
  every row keeps its columns and gets the point \<open>(xcoord, ycoord)\<close>.
\<close>

definition munros_geo :: "csv_row list \<Rightarrow> (csv_row \<times> point) frame" where
  "munros_geo munros = zip [0..<length munros] (map (\<lambda>r. (r, (xcoord r, ycoord r))) munros)"

text \<open>\<^verbatim>\<open>filter(_['2021'] == v)\<close>: exact string equality; a missing cell equals nothing.\<close>

definition filter_2021 :: "string \<Rightarrow> (csv_row \<times> point) frame \<Rightarrow> (csv_row \<times> point) frame" where
  "filter_2021 v df = filter (\<lambda>(i, r, g). csv_2021 r = Some v) df"

definition select_cols :: "(csv_row \<times> point) frame \<Rightarrow> peak frame" where
  "select_cols df = map (\<lambda>(i, r, g). (i,
     \<lparr>Name = csv_Name r, Height_m = csv_Height_m r, Height_ft = csv_Height_ft r,
      class_2021 = csv_2021 r, geometry = g\<rparr>)) df"

definition only_munros :: "(csv_row \<times> point) frame \<Rightarrow> peak frame" where
  "only_munros df = select_cols (filter_2021 ''Munro'' df)"

definition only_munro_tops :: "(csv_row \<times> point) frame \<Rightarrow> peak frame" where
  "only_munro_tops df = select_cols (filter_2021 ''Munro Top'' df)"

subsection \<open>Nearest-neighbour matching\<close>

text \<open>Planar Euclidean distance of two points (shapely's \<^verbatim>\<open>distance\<close>).\<close>

definition distance :: "point \<Rightarrow> point \<Rightarrow> real" where
  "distance p q = sqrt ((fst p - fst q)\<^sup>2 + (snd p - snd q)\<^sup>2)"

text \<open>\<^verbatim>\<open>only_munro_tops.geometry.distance(x)\<close>: a series with the labels of the frame.\<close>

definition geometry_distance :: "peak frame \<Rightarrow> point \<Rightarrow> (nat \<times> real) list" where
  "geometry_distance df x = map (\<lambda>(j, q). (j, distance (geometry q) x)) df"

text \<open>
  \<^verbatim>\<open>Series.idxmin()\<close>: the label of the first occurrence of the minimum; on an empty
  series it raises \<^verbatim>\<open>ValueError\<close>.
\<close>

fun first_min :: "nat \<times> real \<Rightarrow> (nat \<times> real) list \<Rightarrow> nat \<times> real" where
  "first_min best [] = best"
| "first_min best (c # cs) = first_min (if snd c < snd best then c else best) cs"

fun idxmin :: "(nat \<times> real) list \<Rightarrow> error + nat" where
  "idxmin [] = Inl ValueError"
| "idxmin (c # cs) = Inr (fst (first_min c cs))"

text \<open>\<^verbatim>\<open>df.loc[label]\<close>: the row with that label; \<^verbatim>\<open>KeyError\<close> when there is none.\<close>

definition loc :: "'r frame \<Rightarrow> nat \<Rightarrow> error + 'r" where
  "loc df j = (case map_of df j of None \<Rightarrow> Inl KeyError | Some r \<Rightarrow> Inr r)"

text \<open>The body of the lambda: \<^verbatim>\<open>only_munro_tops.loc[only_munro_tops.geometry.distance(x).idxmin()]\<close>.\<close>

definition closest_row :: "peak frame \<Rightarrow> point \<Rightarrow> error + peak" where
  "closest_row tops x =
     (case idxmin (geometry_distance tops x) of Inl e \<Rightarrow> Inl e | Inr j \<Rightarrow> loc tops j)"

text \<open>\<^verbatim>\<open>apply\<close>: the function is called row by row; the first exception ends the run.\<close>

fun apply_rows :: "('a \<Rightarrow> error + 'b) \<Rightarrow> 'a list \<Rightarrow> error + 'b list" where
  "apply_rows f [] = Inr []"
| "apply_rows f (x # xs) =
     (case f x of Inl e \<Rightarrow> Inl e
      | Inr y \<Rightarrow> (case apply_rows f xs of Inl e \<Rightarrow> Inl e | Inr ys \<Rightarrow> Inr (y # ys)))"

text \<open>
  \<^verbatim>\<open>closest_points = only_munros.geometry.apply(lambda x: ...)\<close>: a frame with the labels
  of \<^verbatim>\<open>only_munros\<close>, whose row \<open>i\<close> is the nearest row of \<^verbatim>\<open>only_munro_tops\<close>. On an empty
  series \<^verbatim>\<open>apply\<close> calls nothing and returns an empty series, here the empty list.
\<close>

definition closest_points :: "peak frame \<Rightarrow> peak frame \<Rightarrow> error + peak frame" where
  "closest_points munros tops =
     apply_rows (\<lambda>(i, p). case closest_row tops (geometry p) of
                             Inl e \<Rightarrow> Inl e | Inr q \<Rightarrow> Inr (i, q)) munros"

text \<open>
  The three \<^verbatim>\<open>mutate\<close> calls. \<^verbatim>\<open>closest_points['Name']\<close> raises \<^verbatim>\<open>KeyError\<close> when
  \<^verbatim>\<open>closest_points\<close> is the empty series, which has no column. The new columns are aligned
  with \<^verbatim>\<open>only_munros\<close> by label; a label without a partner would leave a missing value,
  on which \<^verbatim>\<open>distance\<close> raises.
\<close>

definition with_closest :: "peak \<Rightarrow> peak \<Rightarrow> matched" where
  "with_closest p q =
     \<lparr>Name = Name p, Height_m = Height_m p, Height_ft = Height_ft p,
      class_2021 = class_2021 p, geometry = geometry p,
      closest_name = Name q, closest_geometry = geometry q,
      closest_distance = distance (geometry p) (geometry q) / 1000\<rparr>"

definition mutate_closest :: "peak frame \<Rightarrow> peak frame \<Rightarrow> error + matched frame" where
  "mutate_closest munros cp =
     (if cp = [] then Inl KeyError
      else apply_rows (\<lambda>(i, p). case map_of cp i of
               None \<Rightarrow> Inl TypeError
             | Some q \<Rightarrow> Inr (i, with_closest p q)) munros)"

text \<open>Lines 53 to 65 for the two subsets.\<close>

definition match_munros :: "peak frame \<Rightarrow> peak frame \<Rightarrow> error + matched frame" where
  "match_munros munros tops =
     (case closest_points munros tops of Inl e \<Rightarrow> Inl e | Inr cp \<Rightarrow> mutate_closest munros cp)"

text \<open>Lines 32 to 65 for the rows of the CSV.\<close>

definition only_munros_matched :: "csv_row list \<Rightarrow> error + matched frame" where
  "only_munros_matched munros =
     match_munros (only_munros (munros_geo munros)) (only_munro_tops (munros_geo munros))"

subsection \<open>Aggregation\<close>

text \<open>The column \<^verbatim>\<open>only_munros.closest_distance\<close>, in row order.\<close>

definition closest_distance_col :: "matched frame \<Rightarrow> real list" where
  "closest_distance_col df = map (\<lambda>(i, r). closest_distance r) df"

text \<open>Python's \<^verbatim>\<open>sum\<close>: start at 0 and add from the left.\<close>

definition py_sum :: "real list \<Rightarrow> real" where
  "py_sum xs = foldl (+) 0 xs"

text \<open>\<^verbatim>\<open>sum(only_munros.closest_distance) / len(only_munros)\<close>; dividing by zero raises.\<close>

definition dist_mean :: "matched frame \<Rightarrow> error + real" where
  "dist_mean df =
     (if length df = 0 then Inl ZeroDivisionError
      else Inr (py_sum (closest_distance_col df) / real (length df)))"

text \<open>
  \<^verbatim>\<open>statistics.median\<close> of the standard library: sort, raise \<^verbatim>\<open>StatisticsError\<close> on no
  data, return the middle element for an odd count and the mean of the two middle
  elements for an even one.
\<close>

definition median :: "real list \<Rightarrow> error + real" where
  "median xs =
     (let data = sort xs; n = length data in
      if n = 0 then Inl StatisticsError
      else if n mod 2 = 1 then Inr (data ! (n div 2))
      else Inr ((data ! (n div 2 - 1) + data ! (n div 2)) / 2))"

definition dist_median :: "matched frame \<Rightarrow> error + real" where
  "dist_median df = median (closest_distance_col df)"

subsection \<open>Reference definitions\<close>

text \<open>
  The minimum kilometre distance from a point to the Munro Tops, taken directly: every
  distance is divided by 1000 first and the least of them is returned. It follows the
  words of the specification and is compared with the script's two phases below.
\<close>

definition min_km_direct_spec :: "peak frame \<Rightarrow> point \<Rightarrow> error + real" where
  "min_km_direct_spec tops x =
     (if tops = [] then Inl ValueError
      else Inr (Min (set (map (\<lambda>(j, q). distance x (geometry q) / 1000) tops))))"

text \<open>The rows of a frame at the least distance from a point, in row order.\<close>

definition nearest_rows :: "peak frame \<Rightarrow> point \<Rightarrow> peak list" where
  "nearest_rows tops x =
     filter (\<lambda>q. \<forall>r\<in>set (map snd tops). distance (geometry q) x \<le> distance (geometry r) x)
       (map snd tops)"

subsection \<open>Sample data\<close>

text \<open>Two Munros, three Munro Tops and an unclassified hill, on a 3-4-5 grid.\<close>

definition sample_row :: "string \<Rightarrow> string option \<Rightarrow> real \<Rightarrow> real \<Rightarrow> csv_row" where
  "sample_row n c x y =
     \<lparr>csv_Name = n, csv_Height_m = 1000, csv_Height_ft = 3281, xcoord = x, ycoord = y,
      csv_2021 = c\<rparr>"

definition sample_munros :: "csv_row list" where
  "sample_munros =
     [sample_row ''Ben A'' (Some ''Munro'') 0 0,
      sample_row ''Top B'' (Some ''Munro Top'') 3 4,
      sample_row ''Hill C'' None 1 0,
      sample_row ''Top D'' (Some ''Munro Top'') (-3) 4,
      sample_row ''Ben E'' (Some ''Munro'') 6 8,
      sample_row ''Top F'' (Some ''Munro Top'') 6 8]"

text \<open>The same rows with the two equidistant Munro Tops exchanged.\<close>

definition sample_swapped :: "csv_row list" where
  "sample_swapped =
     [sample_row ''Ben A'' (Some ''Munro'') 0 0,
      sample_row ''Top D'' (Some ''Munro Top'') (-3) 4,
      sample_row ''Hill C'' None 1 0,
      sample_row ''Top B'' (Some ''Munro Top'') 3 4,
      sample_row ''Ben E'' (Some ''Munro'') 6 8,
      sample_row ''Top F'' (Some ''Munro Top'') 6 8]"

text \<open>Rows after \<^verbatim>\<open>select\<close>, and a frame of three matched rows.\<close>

definition sample_peak :: "string \<Rightarrow> string option \<Rightarrow> real \<Rightarrow> real \<Rightarrow> peak" where
  "sample_peak n c x y =
     \<lparr>Name = n, Height_m = 1000, Height_ft = 3281, class_2021 = c, geometry = (x, y)\<rparr>"

definition sample_matched3 :: "matched frame" where
  "sample_matched3 =
     [(0, with_closest (sample_peak ''Ben A'' (Some ''Munro'') 0 0)
            (sample_peak ''Top B'' (Some ''Munro Top'') 3 4)),
      (1, with_closest (sample_peak ''Ben G'' (Some ''Munro'') 0 0)
            (sample_peak ''Top F'' (Some ''Munro Top'') 6 8)),
      (4, with_closest (sample_peak ''Ben E'' (Some ''Munro'') 6 8)
            (sample_peak ''Top F'' (Some ''Munro Top'') 6 8))]"

section \<open>Properties\<close>

subsection \<open>First minimum, sums and row-wise application\<close>

lemma first_min_split:
  "\<exists>pre r post. b # cs = pre @ r # post \<and> first_min b cs = r
     \<and> (\<forall>x\<in>set pre. snd r < snd x) \<and> (\<forall>x\<in>set post. snd r \<le> snd x)"
proof (induction cs arbitrary: b)
  case Nil
  show ?case
    by (rule exI [of _ "[]"], rule exI [of _ b], rule exI [of _ "[]"]) simp
next
  case (Cons c cs)
  show ?case
  proof (cases "snd c < snd b")
    case True
    from Cons.IH [of c] obtain pre r post where
      s: "c # cs = pre @ r # post" and f: "first_min c cs = r"
      and lt: "\<forall>x\<in>set pre. snd r < snd x" and le: "\<forall>x\<in>set post. snd r \<le> snd x"
      by blast
    have "snd r \<le> snd c"
    proof (cases pre)
      case Nil
      with s show ?thesis by simp
    next
      case (Cons a pre')
      with s lt show ?thesis by auto
    qed
    with True have rb: "snd r < snd b" by simp
    have "b # c # cs = (b # pre) @ r # post" using s by simp
    moreover have "first_min b (c # cs) = r" using True f by simp
    moreover have "\<forall>x\<in>set (b # pre). snd r < snd x" using lt rb by simp
    ultimately show ?thesis using le by blast
  next
    case False
    from Cons.IH [of b] obtain pre r post where
      s: "b # cs = pre @ r # post" and f: "first_min b cs = r"
      and lt: "\<forall>x\<in>set pre. snd r < snd x" and le: "\<forall>x\<in>set post. snd r \<le> snd x"
      by blast
    have fm: "first_min b (c # cs) = r" using False f by simp
    show ?thesis
    proof (cases pre)
      case Nil
      with s have rb: "r = b" and p: "post = cs" by simp_all
      have "b # c # cs = [] @ r # (c # post)" using rb p by simp
      moreover have "\<forall>x\<in>set (c # post). snd r \<le> snd x" using le rb False by simp
      ultimately show ?thesis using fm by (metis empty_iff empty_set)
    next
      case (Cons a pre')
      with s have ab: "a = b" and cs: "cs = pre' @ r # post" by simp_all
      have "snd r < snd b" using lt Cons ab by simp
      with False have rc: "snd r < snd c" by simp
      have "b # c # cs = (b # c # pre') @ r # post" using cs by simp
      moreover have "\<forall>x\<in>set (b # c # pre'). snd r < snd x" using lt Cons ab rc by simp
      ultimately show ?thesis using fm le by blast
    qed
  qed
qed

lemma find_split:
  "(\<forall>x\<in>set pre. \<not> P x) \<Longrightarrow> P r \<Longrightarrow> find P (pre @ r # post) = Some r"
  by (induction pre) auto

lemma py_sum_sum_list: "py_sum xs = sum_list xs"
proof -
  have "foldl (+) a xs = a + sum_list xs" for a :: real
    by (induction xs arbitrary: a) (simp_all add: add.assoc)
  from this [of 0] show ?thesis by (simp add: py_sum_def)
qed

lemma apply_rows_all:
  "(\<forall>x\<in>set xs. f x = Inr (g x)) \<Longrightarrow> apply_rows f xs = Inr (map g xs)"
  by (induction xs) simp_all

lemma apply_rows_cong:
  "(\<forall>x\<in>set xs. f x = g x) \<Longrightarrow> apply_rows f xs = apply_rows g xs"
  by (induction xs) (simp_all split: sum.splits)

lemma distance_commute: "distance p q = distance q p"
  by (simp add: distance_def power2_commute)

lemma distance_nonneg: "0 \<le> distance p q"
  by (simp add: distance_def)

lemma first_min_scale:
  "first_min (fst b, snd b / 1000) (map (\<lambda>(j, d). (j, d / 1000)) cs) =
     (fst (first_min b cs), snd (first_min b cs) / 1000)"
  by (induction cs arbitrary: b) (simp_all add: case_prod_unfold divide_strict_right_mono)

lemma idxmin_scale: "idxmin (map (\<lambda>(j, d). (j, d / 1000)) s) = idxmin s"
proof (cases s)
  case Nil
  then show ?thesis by simp
next
  case (Cons c cs)
  then show ?thesis using first_min_scale [of c cs] by (simp add: case_prod_unfold)
qed

subsection \<open>The nearest row\<close>

lemma idxmin_split:
  assumes "tops \<noteq> []"
  shows "\<exists>pre j q post. tops = pre @ (j, q) # post
           \<and> idxmin (geometry_distance tops x) = Inr j
           \<and> (\<forall>(i, r)\<in>set pre. distance (geometry q) x < distance (geometry r) x)
           \<and> (\<forall>(i, r)\<in>set post. distance (geometry q) x \<le> distance (geometry r) x)"
proof -
  define f where "f = (\<lambda>(j :: nat, q :: peak). (j, distance (geometry q) x))"
  from assms obtain t ts where tops: "tops = t # ts" by (cases tops) auto
  have gd: "geometry_distance tops x = f t # map f ts"
    by (simp add: geometry_distance_def f_def tops)
  from first_min_split [of "f t" "map f ts"] obtain pre' r post' where
    s: "f t # map f ts = pre' @ r # post'" and fm: "first_min (f t) (map f ts) = r"
    and lt: "\<forall>c\<in>set pre'. snd r < snd c" and le: "\<forall>c\<in>set post'. snd r \<le> snd c"
    by blast
  from s have "map f tops = pre' @ r # post'" by (simp add: tops)
  then obtain pre v post where
    sp: "tops = pre @ v # post" and p1: "pre' = map f pre" and rv: "r = f v"
    and p2: "post' = map f post"
    by (auto simp: map_eq_append_conv map_eq_Cons_conv)
  obtain j q where v: "v = (j, q)" by (cases v)
  have r: "r = (j, distance (geometry q) x)" by (simp add: rv v f_def)
  have "idxmin (geometry_distance tops x) = Inr j" by (simp add: gd fm r)
  moreover have "\<forall>(i, u)\<in>set pre. distance (geometry q) x < distance (geometry u) x"
    using lt by (auto simp: p1 r f_def)
  moreover have "\<forall>(i, u)\<in>set post. distance (geometry q) x \<le> distance (geometry u) x"
    using le by (auto simp: p2 r f_def)
  ultimately show ?thesis using sp v by blast
qed

lemma closest_row_split:
  assumes "tops \<noteq> []" and "distinct (map fst tops)"
  shows "\<exists>pre j q post. tops = pre @ (j, q) # post
           \<and> idxmin (geometry_distance tops x) = Inr j
           \<and> closest_row tops x = Inr q
           \<and> (\<forall>(i, r)\<in>set pre. distance (geometry q) x < distance (geometry r) x)
           \<and> (\<forall>(i, r)\<in>set post. distance (geometry q) x \<le> distance (geometry r) x)"
proof -
  from idxmin_split [OF assms(1), of x] obtain pre j q post where
    sp: "tops = pre @ (j, q) # post" and im: "idxmin (geometry_distance tops x) = Inr j"
    and lt: "\<forall>(i, r)\<in>set pre. distance (geometry q) x < distance (geometry r) x"
    and le: "\<forall>(i, r)\<in>set post. distance (geometry q) x \<le> distance (geometry r) x"
    by blast
  have "(j, q) \<in> set tops" by (simp add: sp)
  with assms(2) have "map_of tops j = Some q" by simp
  then have "closest_row tops x = Inr q" by (simp add: closest_row_def im loc_def)
  with sp im lt le show ?thesis by blast
qed

lemma split_min:
  assumes "tops = pre @ (j, q) # post"
    and "\<forall>(i, r)\<in>set pre. distance (geometry q) x < distance (geometry r) x"
    and "\<forall>(i, r)\<in>set post. distance (geometry q) x \<le> distance (geometry r) x"
  shows "Min ((\<lambda>r. distance (geometry r) x) ` snd ` set tops) = distance (geometry q) x"
proof (rule Min_eqI)
  show "finite ((\<lambda>r. distance (geometry r) x) ` snd ` set tops)" by simp
  show "distance (geometry q) x \<in> (\<lambda>r. distance (geometry r) x) ` snd ` set tops"
    by (force simp: assms(1))
  fix y assume "y \<in> (\<lambda>r. distance (geometry r) x) ` snd ` set tops"
  with assms(2,3) show "distance (geometry q) x \<le> y"
    by (auto simp: assms(1) less_imp_le)
qed

lemma closest_row_min:
  assumes "tops \<noteq> []" and "distinct (map fst tops)"
  shows "\<exists>j q. (j, q) \<in> set tops \<and> idxmin (geometry_distance tops x) = Inr j
           \<and> closest_row tops x = Inr q
           \<and> distance (geometry q) x = Min ((\<lambda>r. distance (geometry r) x) ` snd ` set tops)"
proof -
  from closest_row_split [OF assms, of x] obtain pre j q post where
    sp: "tops = pre @ (j, q) # post" and im: "idxmin (geometry_distance tops x) = Inr j"
    and cr: "closest_row tops x = Inr q"
    and lt: "\<forall>(i, r)\<in>set pre. distance (geometry q) x < distance (geometry r) x"
    and le: "\<forall>(i, r)\<in>set post. distance (geometry q) x \<le> distance (geometry r) x"
    by blast
  have all: "\<forall>(i, r)\<in>set tops. distance (geometry q) x \<le> distance (geometry r) x"
    using lt le by (auto simp: sp less_imp_le)
  have "Min ((\<lambda>r. distance (geometry r) x) ` snd ` set tops) = distance (geometry q) x"
  proof (rule Min_eqI)
    show "finite ((\<lambda>r. distance (geometry r) x) ` snd ` set tops)" by simp
    show "distance (geometry q) x \<in> (\<lambda>r. distance (geometry r) x) ` snd ` set tops"
      by (force simp: sp)
    fix y assume "y \<in> (\<lambda>r. distance (geometry r) x) ` snd ` set tops"
    with all show "distance (geometry q) x \<le> y" by auto
  qed
  moreover have "(j, q) \<in> set tops" by (simp add: sp)
  ultimately show ?thesis using im cr by auto
qed

lemma closest_row_find:
  assumes "tops \<noteq> []" and "distinct (map fst tops)"
  shows "\<exists>j q. find (\<lambda>(j, q). distance (geometry q) x =
                      Min ((\<lambda>r. distance (geometry r) x) ` snd ` set tops)) tops = Some (j, q)
           \<and> idxmin (geometry_distance tops x) = Inr j
           \<and> closest_row tops x = Inr q"
proof -
  from closest_row_split [OF assms, of x] obtain pre j q post where
    sp: "tops = pre @ (j, q) # post" and im: "idxmin (geometry_distance tops x) = Inr j"
    and cr: "closest_row tops x = Inr q"
    and lt: "\<forall>(i, r)\<in>set pre. distance (geometry q) x < distance (geometry r) x"
    and le: "\<forall>(i, r)\<in>set post. distance (geometry q) x \<le> distance (geometry r) x"
    by blast
  let ?m = "Min ((\<lambda>r. distance (geometry r) x) ` snd ` set tops)"
  have m: "?m = distance (geometry q) x" by (rule split_min [OF sp lt le])
  have "find (\<lambda>(j, q). distance (geometry q) x = ?m) (pre @ (j, q) # post) = Some (j, q)"
  proof (rule find_split)
    show "\<forall>c\<in>set pre. \<not> (case c of (j, q) \<Rightarrow> distance (geometry q) x = ?m)"
      using lt by (auto simp: m)
    show "case (j, q) of (j, q) \<Rightarrow> distance (geometry q) x = ?m" by (simp add: m)
  qed
  with sp im cr show ?thesis by auto
qed

lemma closest_row_km:
  assumes "tops \<noteq> []" and "distinct (map fst tops)"
  shows "Inr (distance x (geometry (projr (closest_row tops x))) / 1000) = min_km_direct_spec tops x"
proof -
  from closest_row_min [OF assms, of x] obtain j q where jq: "(j, q) \<in> set tops"
    and cr: "closest_row tops x = Inr q"
    and m: "distance (geometry q) x = Min ((\<lambda>r. distance (geometry r) x) ` snd ` set tops)"
    by blast
  have fin: "finite ((\<lambda>r. distance (geometry r) x) ` snd ` set tops)" by simp
  have "Min (set (map (\<lambda>(j, q). distance x (geometry q) / 1000) tops)) =
          distance x (geometry q) / 1000"
  proof (rule Min_eqI)
    show "finite (set (map (\<lambda>(j, q). distance x (geometry q) / 1000) tops))" by simp
    show "distance x (geometry q) / 1000 \<in> set (map (\<lambda>(j, q). distance x (geometry q) / 1000) tops)"
      using jq by force
    fix y assume "y \<in> set (map (\<lambda>(j, q). distance x (geometry q) / 1000) tops)"
    then obtain k r where kr: "(k, r) \<in> set tops" and y: "y = distance x (geometry r) / 1000"
      by auto
    from kr have "distance (geometry r) x \<in> (\<lambda>r. distance (geometry r) x) ` snd ` set tops"
      by force
    from Min_le [OF fin this] m have "distance (geometry q) x \<le> distance (geometry r) x"
      by simp
    then show "distance x (geometry q) / 1000 \<le> y"
      by (simp add: y distance_commute [of x])
  qed
  with assms(1) cr show ?thesis by (simp add: min_km_direct_spec_def)
qed

lemma closest_row_nearest:
  assumes "tops \<noteq> []" and "distinct (map fst tops)"
  shows "\<exists>q. closest_row tops x = Inr q \<and> q \<in> set (nearest_rows tops x)"
proof -
  from closest_row_min [OF assms, of x] obtain j q where jq: "(j, q) \<in> set tops"
    and cr: "closest_row tops x = Inr q"
    and m: "distance (geometry q) x = Min ((\<lambda>r. distance (geometry r) x) ` snd ` set tops)"
    by blast
  have fin: "finite ((\<lambda>r. distance (geometry r) x) ` snd ` set tops)" by simp
  have "distance (geometry q) x \<le> distance (geometry r) x" if "r \<in> snd ` set tops" for r
  proof -
    from that have "distance (geometry r) x \<in> (\<lambda>r. distance (geometry r) x) ` snd ` set tops"
      by blast
    from Min_le [OF fin this] m show ?thesis by simp
  qed
  moreover from jq have "q \<in> snd ` set tops" by force
  ultimately have "q \<in> set (nearest_rows tops x)" by (simp add: nearest_rows_def)
  with cr show ?thesis by blast
qed

subsection \<open>The matched frame\<close>

lemma closest_points_eq:
  assumes "tops \<noteq> []" and "distinct (map fst tops)"
  shows "closest_points munros tops =
           Inr (map (\<lambda>(i, p). (i, projr (closest_row tops (geometry p)))) munros)"
  unfolding closest_points_def
proof (rule apply_rows_all, rule ballI)
  fix x :: "nat \<times> peak"
  obtain i p where x: "x = (i, p)" by (cases x)
  from closest_row_min [OF assms, of "geometry p"] obtain q where
    "closest_row tops (geometry p) = Inr q" by blast
  then show "(case x of (i, p) \<Rightarrow> case closest_row tops (geometry p) of
                 Inl e \<Rightarrow> Inl e | Inr q \<Rightarrow> Inr (i, q))
             = Inr (case x of (i, p) \<Rightarrow> (i, projr (closest_row tops (geometry p))))"
    by (simp add: x)
qed

lemma mutate_closest_eq:
  assumes "munros \<noteq> []" and "distinct (map fst munros)"
  shows "mutate_closest munros (map (\<lambda>(i, p). (i, h p)) munros) =
           Inr (map (\<lambda>(i, p). (i, with_closest p (h p))) munros)"
proof -
  have ne: "map (\<lambda>(i, p). (i, h p)) munros \<noteq> []" using assms(1) by simp
  have "apply_rows (\<lambda>(i, p). case map_of (map (\<lambda>(i, p). (i, h p)) munros) i of
               None \<Rightarrow> Inl TypeError
             | Some q \<Rightarrow> Inr (i, with_closest p q)) munros
        = Inr (map (\<lambda>(i, p). (i, with_closest p (h p))) munros)"
  proof (rule apply_rows_all, rule ballI)
    fix x :: "nat \<times> peak" assume xin: "x \<in> set munros"
    obtain i p where x: "x = (i, p)" by (cases x)
    from xin assms(2) have "map_of munros i = Some p" by (simp add: x)
    then have "map_of (map (\<lambda>(i, p). (i, h p)) munros) i = Some (h p)"
      by (simp add: map_of_map)
    then show "(case x of (i, p) \<Rightarrow> case map_of (map (\<lambda>(i, p). (i, h p)) munros) i of
                   None \<Rightarrow> Inl TypeError | Some q \<Rightarrow> Inr (i, with_closest p q))
               = Inr (case x of (i, p) \<Rightarrow> (i, with_closest p (h p)))"
      by (simp add: x)
  qed
  with ne show ?thesis by (simp only: mutate_closest_def if_False)
qed

lemma match_munros_eq:
  assumes "munros \<noteq> []" and "distinct (map fst munros)"
    and "tops \<noteq> []" and "distinct (map fst tops)"
  shows "match_munros munros tops =
           Inr (map (\<lambda>(i, p). (i, with_closest p (projr (closest_row tops (geometry p))))) munros)"
  by (simp add: match_munros_def closest_points_eq [OF assms(3,4)]
        mutate_closest_eq [OF assms(1,2)])

lemma match_munros_Nil: "match_munros [] tops = Inl KeyError"
  by (simp add: match_munros_def closest_points_def mutate_closest_def)

subsection \<open>Labels and rows of the two subsets\<close>

lemma fst_munros_geo: "map fst (munros_geo rows) = [0..<length rows]"
  by (simp add: munros_geo_def)

lemma fst_select_cols: "map fst (select_cols df) = map fst df"
  by (simp add: select_cols_def case_prod_unfold)

lemma distinct_only_munros: "distinct (map fst (only_munros (munros_geo rows)))"
  by (simp add: only_munros_def fst_select_cols filter_2021_def distinct_map_filter fst_munros_geo)

lemma distinct_only_munro_tops: "distinct (map fst (only_munro_tops (munros_geo rows)))"
  by (simp add: only_munro_tops_def fst_select_cols filter_2021_def distinct_map_filter fst_munros_geo)

lemma set_munros_geo:
  "(i, r, g) \<in> set (munros_geo rows) \<longleftrightarrow>
     i < length rows \<and> r = rows ! i \<and> g = (xcoord r, ycoord r)"
proof
  assume "(i, r, g) \<in> set (munros_geo rows)"
  then show "i < length rows \<and> r = rows ! i \<and> g = (xcoord r, ycoord r)"
    by (auto simp: munros_geo_def in_set_zip)
next
  assume a: "i < length rows \<and> r = rows ! i \<and> g = (xcoord r, ycoord r)"
  then have "[0..<length rows] ! i = i
      \<and> map (\<lambda>r. (r, xcoord r, ycoord r)) rows ! i = (r, g) \<and> i < length rows"
    by simp
  then show "(i, r, g) \<in> set (munros_geo rows)"
    unfolding munros_geo_def in_set_zip by auto
qed

lemma set_partition:
  "(i, p) \<in> set (select_cols (filter_2021 v (munros_geo rows))) \<longleftrightarrow>
     i < length rows \<and> csv_2021 (rows ! i) = Some v \<and>
     p = \<lparr>Name = csv_Name (rows ! i), Height_m = csv_Height_m (rows ! i),
          Height_ft = csv_Height_ft (rows ! i), class_2021 = csv_2021 (rows ! i),
          geometry = (xcoord (rows ! i), ycoord (rows ! i))\<rparr>"
  by (force simp: select_cols_def filter_2021_def set_munros_geo image_iff)

lemma only_munros_matched_eq:
  assumes "only_munros (munros_geo rows) \<noteq> []" and "only_munro_tops (munros_geo rows) \<noteq> []"
  shows "only_munros_matched rows =
           Inr (map (\<lambda>(i, p). (i, with_closest p
                  (projr (closest_row (only_munro_tops (munros_geo rows)) (geometry p)))))
                (only_munros (munros_geo rows)))"
  unfolding only_munros_matched_def
  by (rule match_munros_eq [OF assms(1) distinct_only_munros assms(2) distinct_only_munro_tops])

subsection \<open>Frames with the same rows\<close>

lemma perm_rows_set:
  assumes "mset (map snd tops) = mset (map snd tops')"
  shows "snd ` set tops = snd ` set tops'"
proof -
  from assms have "set (map snd tops) = set (map snd tops')" by (rule mset_eq_setD)
  then show ?thesis by simp
qed

lemma perm_rows_Nil:
  assumes "mset (map snd tops) = mset (map snd tops')"
  shows "tops = [] \<longleftrightarrow> tops' = []"
proof -
  from assms have "size (mset (map snd tops)) = size (mset (map snd tops'))" by simp
  then have "length tops = length tops'" by simp
  then show ?thesis by (metis length_0_conv)
qed

lemma min_km_direct_spec_perm:
  assumes "mset (map snd tops) = mset (map snd tops')"
  shows "min_km_direct_spec tops x = min_km_direct_spec tops' x"
proof -
  have "set (map (\<lambda>(j, q). distance x (geometry q) / 1000) ts) =
          (\<lambda>q. distance x (geometry q) / 1000) ` snd ` set ts" for ts :: "peak frame"
    by force
  then show ?thesis
    using perm_rows_set [OF assms] perm_rows_Nil [OF assms] by (simp add: min_km_direct_spec_def)
qed

lemma nearest_rows_perm:
  assumes "mset (map snd tops) = mset (map snd tops')"
  shows "set (nearest_rows tops x) = set (nearest_rows tops' x)"
  using perm_rows_set [OF assms] by (simp add: nearest_rows_def)

subsection \<open>The sample data, evaluated\<close>

lemmas sample_defs = sample_munros_def sample_row_def munros_geo_def only_munros_def
  only_munro_tops_def select_cols_def filter_2021_def

lemma sample_A: "only_munros (munros_geo sample_munros) =
  [(0, \<lparr>Name = ''Ben A'', Height_m = 1000, Height_ft = 3281, class_2021 = Some ''Munro'', geometry = (0, 0)\<rparr>),
   (4, \<lparr>Name = ''Ben E'', Height_m = 1000, Height_ft = 3281, class_2021 = Some ''Munro'', geometry = (6, 8)\<rparr>)]"
  by (simp add: sample_defs upt_rec)

lemma sample_B: "only_munro_tops (munros_geo sample_munros) =
  [(1, \<lparr>Name = ''Top B'', Height_m = 1000, Height_ft = 3281, class_2021 = Some ''Munro Top'', geometry = (3, 4)\<rparr>),
   (3, \<lparr>Name = ''Top D'', Height_m = 1000, Height_ft = 3281, class_2021 = Some ''Munro Top'', geometry = (-3, 4)\<rparr>),
   (5, \<lparr>Name = ''Top F'', Height_m = 1000, Height_ft = 3281, class_2021 = Some ''Munro Top'', geometry = (6, 8)\<rparr>)]"
  by (simp add: sample_defs upt_rec)

lemma sample_swapped_A:
  "only_munros (munros_geo sample_swapped) = only_munros (munros_geo sample_munros)"
  by (simp add: sample_defs sample_swapped_def upt_rec)

lemma sample_swapped_B: "only_munro_tops (munros_geo sample_swapped) =
  [(1, \<lparr>Name = ''Top D'', Height_m = 1000, Height_ft = 3281, class_2021 = Some ''Munro Top'', geometry = (-3, 4)\<rparr>),
   (3, \<lparr>Name = ''Top B'', Height_m = 1000, Height_ft = 3281, class_2021 = Some ''Munro Top'', geometry = (3, 4)\<rparr>),
   (5, \<lparr>Name = ''Top F'', Height_m = 1000, Height_ft = 3281, class_2021 = Some ''Munro Top'', geometry = (6, 8)\<rparr>)]"
  by (simp add: sample_defs sample_swapped_def upt_rec)

lemma sqrt_25: "sqrt 25 = 5"
proof -
  have "sqrt ((5::real)\<^sup>2) = 5" by simp
  then show ?thesis by simp
qed

lemma sqrt_100: "sqrt 100 = 10"
proof -
  have "sqrt ((10::real)\<^sup>2) = 10" by simp
  then show ?thesis by simp
qed

lemmas match_defs = only_munros_matched_def match_munros_def closest_points_def
  closest_row_def geometry_distance_def distance_def loc_def mutate_closest_def with_closest_def

lemma sample_matched: "map (\<lambda>(i, r). (i, closest_name r, closest_distance r)) (projr (only_munros_matched sample_munros)) = [(0, ''Top B'', 5 / 1000), (4, ''Top F'', 0)]"
  by (simp add: only_munros_matched_def sample_A sample_B match_munros_def closest_points_def
      closest_row_def geometry_distance_def distance_def loc_def mutate_closest_def with_closest_def sqrt_25)

lemma sample_matched_names:
  "map (\<lambda>(i, r). closest_name r) (projr (only_munros_matched sample_munros)) = [''Top B'', ''Top F'']"
  by (simp add: sample_A sample_B match_defs)

lemma sample_swapped_names:
  "map (\<lambda>(i, r). closest_name r) (projr (only_munros_matched sample_swapped)) = [''Top D'', ''Top F'']"
  by (simp add: sample_swapped_A sample_A sample_swapped_B match_defs)

section \<open>The claims\<close>

text \<open>
  C1. For every Munro \<open>p\<close> and a non-empty set of Munro Tops, the script returns a frame
  with a row for \<open>p\<close> whose \<open>closest_distance\<close> is not negative and is the least
  Euclidean distance from \<open>p\<close> to a Munro Top, divided by 1000; no Munro Top is strictly
  closer to \<open>p\<close> than the recorded one.
\<close>

theorem closest_distance_minimum:
  assumes "(i, p) \<in> set (only_munros (munros_geo rows))"
    and "only_munro_tops (munros_geo rows) \<noteq> []"
  shows "\<exists>df r. only_munros_matched rows = Inr df \<and> (i, r) \<in> set df
           \<and> Name r = Name p \<and> geometry r = geometry p
           \<and> 0 \<le> closest_distance r
           \<and> closest_distance r =
               Min ((\<lambda>q. distance (geometry p) (geometry q))
                      ` snd ` set (only_munro_tops (munros_geo rows))) / 1000
           \<and> closest_distance r = distance (geometry p) (closest_geometry r) / 1000
           \<and> (\<forall>(j, q)\<in>set (only_munro_tops (munros_geo rows)).
                 \<not> distance (geometry p) (geometry q) < distance (geometry p) (closest_geometry r))"
proof -
  let ?A = "only_munros (munros_geo rows)" and ?B = "only_munro_tops (munros_geo rows)"
  let ?q = "projr (closest_row ?B (geometry p))"
  let ?r = "with_closest p ?q"
  from assms(1) have ne: "?A \<noteq> []" by auto
  have df: "only_munros_matched rows =
      Inr (map (\<lambda>(i, p). (i, with_closest p (projr (closest_row ?B (geometry p))))) ?A)"
    by (rule only_munros_matched_eq [OF ne assms(2)])
  have mem: "(i, ?r) \<in> set (map (\<lambda>(i, p). (i, with_closest p (projr (closest_row ?B (geometry p))))) ?A)"
    using assms(1) by force
  from closest_row_min [OF assms(2) distinct_only_munro_tops, of "geometry p"]
  have m: "distance (geometry ?q) (geometry p) =
             Min ((\<lambda>r. distance (geometry r) (geometry p)) ` snd ` set ?B)"
    by auto
  have fin: "finite ((\<lambda>r. distance (geometry r) (geometry p)) ` snd ` set ?B)" by simp
  have c1: "closest_distance ?r =
      Min ((\<lambda>q. distance (geometry p) (geometry q)) ` snd ` set ?B) / 1000"
    using m by (simp add: with_closest_def distance_commute [of "geometry p"])
  have c2: "\<forall>(j, q)\<in>set ?B.
      \<not> distance (geometry p) (geometry q) < distance (geometry p) (closest_geometry ?r)"
  proof (clarify)
    fix j q assume jq: "(j, q) \<in> set ?B"
      and lt: "distance (geometry p) (geometry q) < distance (geometry p) (closest_geometry ?r)"
    from jq have "distance (geometry q) (geometry p)
        \<in> (\<lambda>r. distance (geometry r) (geometry p)) ` snd ` set ?B" by force
    from Min_le [OF fin this] m
    have "distance (geometry ?q) (geometry p) \<le> distance (geometry q) (geometry p)" by simp
    with lt show False
      by (simp add: with_closest_def distance_commute [of "geometry p"])
  qed
  have "Name ?r = Name p" "geometry ?r = geometry p" "0 \<le> closest_distance ?r"
    "closest_distance ?r = distance (geometry p) (closest_geometry ?r) / 1000"
    by (simp_all add: with_closest_def distance_nonneg)
  with df mem c1 c2 show ?thesis by blast
qed

theorem closest_distance_minimum_witness:
  "(0, \<lparr>Name = ''Ben A'', Height_m = 1000, Height_ft = 3281, class_2021 = Some ''Munro'',
        geometry = (0, 0)\<rparr>) \<in> set (only_munros (munros_geo sample_munros))
   \<and> only_munro_tops (munros_geo sample_munros) \<noteq> []
   \<and> (\<exists>df r. only_munros_matched sample_munros = Inr df \<and> (0, r) \<in> set df
         \<and> closest_distance r =
             Min ((\<lambda>q. distance (0, 0) (geometry q))
                    ` snd ` set (only_munro_tops (munros_geo sample_munros))) / 1000)"
proof -
  let ?p = "\<lparr>Name = ''Ben A'', Height_m = 1000, Height_ft = 3281,
              class_2021 = Some ''Munro'', geometry = (0, 0)\<rparr>"
  have h1: "(0, ?p) \<in> set (only_munros (munros_geo sample_munros))"
    by (simp add: sample_A)
  have h2: "only_munro_tops (munros_geo sample_munros) \<noteq> []"
    by (simp add: sample_B)
  from closest_distance_minimum [OF h1 h2] h1 h2 show ?thesis
    by simp blast
qed

text \<open>
  C2. When no row is classified \<^verbatim>\<open>Munro Top\<close>, the lookup of the nearest row raises
  \<^verbatim>\<open>ValueError\<close> for every point, so for every Munro; a run with at least one Munro ends
  with that error, and no run returns a frame of distances.
\<close>

theorem empty_tops_error:
  assumes "only_munro_tops (munros_geo rows) = []"
  shows "closest_row (only_munro_tops (munros_geo rows)) x = Inl ValueError
         \<and> (\<forall>(i, p)\<in>set (only_munros (munros_geo rows)).
               closest_row (only_munro_tops (munros_geo rows)) (geometry p) = Inl ValueError)
         \<and> (only_munros (munros_geo rows) \<noteq> [] \<longrightarrow>
               closest_points (only_munros (munros_geo rows)) (only_munro_tops (munros_geo rows))
                 = Inl ValueError
               \<and> only_munros_matched rows = Inl ValueError)
         \<and> (\<exists>e. only_munros_matched rows = Inl e)"
proof -
  have cr: "closest_row [] y = Inl ValueError" for y
    by (simp add: closest_row_def geometry_distance_def)
  have cp: "closest_points munros [] = Inl ValueError" if "munros \<noteq> []" for munros
    using that by (cases munros) (auto simp: closest_points_def cr)
  have mm: "\<exists>e. match_munros munros [] = Inl e" for munros
    by (cases munros) (auto simp: match_munros_def closest_points_def cr mutate_closest_def)
  show ?thesis
    using cp mm by (simp add: assms cr only_munros_matched_def match_munros_def)
qed

theorem empty_tops_error_witness:
  "only_munro_tops (munros_geo [sample_row ''Ben A'' (Some ''Munro'') 0 0]) = []
   \<and> only_munros (munros_geo [sample_row ''Ben A'' (Some ''Munro'') 0 0]) \<noteq> []
   \<and> only_munros_matched [sample_row ''Ben A'' (Some ''Munro'') 0 0] = Inl ValueError"
proof -
  have h: "only_munro_tops (munros_geo [sample_row ''Ben A'' (Some ''Munro'') 0 0]) = []"
    by (simp add: sample_defs)
  have a: "only_munros (munros_geo [sample_row ''Ben A'' (Some ''Munro'') 0 0]) \<noteq> []"
    by (simp add: sample_defs)
  from empty_tops_error [OF h] a h show ?thesis by blast
qed

text \<open>
  C3. For a non-empty column of distances, \<open>dist_mean\<close> is the sum of the column divided
  by its length, and \<open>dist_median\<close> is the middle element of the sorted column for an odd
  length and the mean of the two middle elements for an even one. The mean of one
  distance is that distance, the median of \<open>[1, 2, 3]\<close> is 2 and the median of
  \<open>[1, 2, 3, 4]\<close> is 2.5.
\<close>

theorem mean_median_nonempty:
  assumes "closest_distance_col df = ds" and "ds \<noteq> []"
  shows "dist_mean df = Inr (sum_list ds / real (length ds))
         \<and> dist_median df =
             Inr (if odd (length ds) then sort ds ! (length ds div 2)
                  else (sort ds ! (length ds div 2 - 1) + sort ds ! (length ds div 2)) / 2)
         \<and> sorted (sort ds) \<and> mset (sort ds) = mset ds
         \<and> dist_mean [(i, r)] = Inr (closest_distance r)
         \<and> median [1, 2, 3] = Inr 2
         \<and> median [1, 2, 3, 4] = Inr (5 / 2)"
proof -
  have len: "length df = length ds" using assms(1) by (auto simp: closest_distance_col_def)
  with assms(2) have ne: "length df \<noteq> 0" by simp
  have mean: "dist_mean df = Inr (sum_list ds / real (length ds))"
    using ne by (simp add: dist_mean_def assms(1) py_sum_sum_list len)
  have sne: "sort ds \<noteq> []" using assms(2) by (metis set_sort set_empty)
  have med: "dist_median df =
             Inr (if odd (length ds) then sort ds ! (length ds div 2)
                  else (sort ds ! (length ds div 2 - 1) + sort ds ! (length ds div 2)) / 2)"
    using sne by (simp add: dist_median_def median_def assms(1) odd_iff_mod_2_eq_one Let_def)
  have one: "dist_mean [(i, r)] = Inr (closest_distance r)"
    by (simp add: dist_mean_def closest_distance_col_def py_sum_def)
  have ex1: "median [1, 2, 3] = Inr 2" by (simp add: median_def)
  have ex2: "median [1, 2, 3, 4] = Inr (5 / 2)" by (simp add: median_def)
  from mean med one ex1 ex2 show ?thesis by simp
qed

theorem mean_median_nonempty_witness:
  "closest_distance_col sample_matched3 = [1 / 200, 1 / 100, 0]
   \<and> [1 / 200, 1 / 100, 0 :: real] \<noteq> []
   \<and> dist_mean sample_matched3 = Inr (1 / 200)
   \<and> dist_median sample_matched3 = Inr (1 / 200)"
proof -
  have h1: "closest_distance_col sample_matched3 = [1 / 200, 1 / 100, 0]"
    by (simp add: closest_distance_col_def sample_matched3_def with_closest_def
        sample_peak_def distance_def sqrt_25 sqrt_100)
  have h2: "[1 / 200, 1 / 100, 0 :: real] \<noteq> []" by simp
  from mean_median_nonempty [OF h1 h2] h1 show ?thesis by simp
qed

text \<open>
  C4. On a column with no element both computations fail and neither returns a number:
  the mean divides by zero (\<^verbatim>\<open>ZeroDivisionError\<close>) and \<^verbatim>\<open>statistics.median\<close> raises
  \<^verbatim>\<open>StatisticsError\<close>. These two exceptions are what the specification calls an
  EmptyInputError.
\<close>

theorem mean_median_empty:
  assumes "closest_distance_col df = []"
  shows "dist_mean df = Inl ZeroDivisionError \<and> dist_median df = Inl StatisticsError
         \<and> median [] = Inl StatisticsError"
  using assms by (simp add: dist_mean_def dist_median_def median_def closest_distance_col_def)

theorem mean_median_empty_witness:
  "closest_distance_col [] = [] \<and> dist_mean [] = Inl ZeroDivisionError
   \<and> dist_median [] = Inl StatisticsError"
proof -
  have h: "closest_distance_col [] = []" by (simp add: closest_distance_col_def)
  from mean_median_empty [OF h] h show ?thesis by simp
qed

text \<open>
  C5. For every frame the two subsets share no row, every row of either subset is
  classified exactly \<^verbatim>\<open>Munro\<close> or \<^verbatim>\<open>Munro Top\<close>, and for the rows of a CSV the two
  subsets share no label and a row with any other classification (or none) has its
  label in neither subset.
\<close>

theorem partition_disjoint:
  "set (only_munros df) \<inter> set (only_munro_tops df) = {}
   \<and> (\<forall>(i, p)\<in>set (only_munros df) \<union> set (only_munro_tops df).
         class_2021 p = Some ''Munro'' \<or> class_2021 p = Some ''Munro Top'')
   \<and> (\<forall>(i, p)\<in>set (only_munros df). class_2021 p = Some ''Munro'')
   \<and> (\<forall>(i, p)\<in>set (only_munro_tops df). class_2021 p = Some ''Munro Top'')
   \<and> fst ` set (only_munros (munros_geo rows))
       \<inter> fst ` set (only_munro_tops (munros_geo rows)) = {}
   \<and> (\<forall>i<length rows.
         csv_2021 (rows ! i) \<noteq> Some ''Munro'' \<and> csv_2021 (rows ! i) \<noteq> Some ''Munro Top'' \<longrightarrow>
         i \<notin> fst ` set (only_munros (munros_geo rows))
         \<and> i \<notin> fst ` set (only_munro_tops (munros_geo rows)))"
proof -
  have ca: "\<forall>(i, p)\<in>set (only_munros df). class_2021 p = Some ''Munro''"
    by (auto simp: only_munros_def select_cols_def filter_2021_def)
  have cb: "\<forall>(i, p)\<in>set (only_munro_tops df). class_2021 p = Some ''Munro Top''"
    by (auto simp: only_munro_tops_def select_cols_def filter_2021_def)
  have dj: "set (only_munros df) \<inter> set (only_munro_tops df) = {}"
    using ca cb by fastforce
  have lab: "fst ` set (only_munros (munros_geo rows))
       \<inter> fst ` set (only_munro_tops (munros_geo rows)) = {}"
    by (auto simp: only_munros_def only_munro_tops_def set_partition)
  have drop: "\<forall>i<length rows.
         csv_2021 (rows ! i) \<noteq> Some ''Munro'' \<and> csv_2021 (rows ! i) \<noteq> Some ''Munro Top'' \<longrightarrow>
         i \<notin> fst ` set (only_munros (munros_geo rows))
         \<and> i \<notin> fst ` set (only_munro_tops (munros_geo rows))"
    by (auto simp: only_munros_def only_munro_tops_def set_partition)
  from ca cb dj lab drop show ?thesis by auto
qed

theorem partition_disjoint_witness:
  "(0, sample_peak ''Ben A'' (Some ''Munro'') 0 0) \<in> set (only_munros (munros_geo sample_munros))
   \<and> (1, sample_peak ''Top B'' (Some ''Munro Top'') 3 4)
        \<in> set (only_munro_tops (munros_geo sample_munros))
   \<and> 2 < length sample_munros
   \<and> csv_2021 (sample_munros ! 2) \<noteq> Some ''Munro''
   \<and> csv_2021 (sample_munros ! 2) \<noteq> Some ''Munro Top''
   \<and> set (only_munros (munros_geo sample_munros))
       \<inter> set (only_munro_tops (munros_geo sample_munros)) = {}
   \<and> 2 \<notin> fst ` set (only_munros (munros_geo sample_munros))
   \<and> 2 \<notin> fst ` set (only_munro_tops (munros_geo sample_munros))"
proof -
  have a: "(0, sample_peak ''Ben A'' (Some ''Munro'') 0 0)
      \<in> set (only_munros (munros_geo sample_munros))"
    by (simp add: sample_A sample_peak_def)
  have b: "(1, sample_peak ''Top B'' (Some ''Munro Top'') 3 4)
      \<in> set (only_munro_tops (munros_geo sample_munros))"
    by (simp add: sample_B sample_peak_def)
  have c: "2 < length sample_munros" "csv_2021 (sample_munros ! 2) \<noteq> Some ''Munro''"
    "csv_2021 (sample_munros ! 2) \<noteq> Some ''Munro Top''"
    by (simp_all add: sample_munros_def sample_row_def)
  from partition_disjoint [of "munros_geo sample_munros" sample_munros] a b c
  show ?thesis by blast
qed

text \<open>
  C6. For every Munro \<open>p\<close> the recorded name and geometry are those of the first row of
  \<^verbatim>\<open>only_munro_tops\<close>, in row order, whose distance to \<open>p\<close> is the minimum; among several
  rows at the minimum distance the first one is recorded.
\<close>

theorem first_minimum_wins:
  assumes "(i, p) \<in> set (only_munros (munros_geo rows))"
    and "only_munro_tops (munros_geo rows) \<noteq> []"
  shows "\<exists>df r j q. only_munros_matched rows = Inr df \<and> (i, r) \<in> set df
           \<and> Name r = Name p \<and> geometry r = geometry p
           \<and> find (\<lambda>(j, q). distance (geometry q) (geometry p) =
                      Min ((\<lambda>r. distance (geometry r) (geometry p))
                             ` snd ` set (only_munro_tops (munros_geo rows))))
                  (only_munro_tops (munros_geo rows)) = Some (j, q)
           \<and> closest_name r = Name q \<and> closest_geometry r = geometry q"
proof -
  let ?A = "only_munros (munros_geo rows)" and ?B = "only_munro_tops (munros_geo rows)"
  from assms(1) have ne: "?A \<noteq> []" by auto
  from closest_row_find [OF assms(2) distinct_only_munro_tops, of "geometry p"]
  obtain j q where
    f: "find (\<lambda>(j, q). distance (geometry q) (geometry p) =
            Min ((\<lambda>r. distance (geometry r) (geometry p)) ` snd ` set ?B)) ?B = Some (j, q)"
    and cr: "closest_row ?B (geometry p) = Inr q"
    by blast
  let ?r = "with_closest p q"
  have df: "only_munros_matched rows =
      Inr (map (\<lambda>(i, p). (i, with_closest p (projr (closest_row ?B (geometry p))))) ?A)"
    by (rule only_munros_matched_eq [OF ne assms(2)])
  have mem: "(i, ?r) \<in> set (map (\<lambda>(i, p). (i, with_closest p (projr (closest_row ?B (geometry p))))) ?A)"
    using assms(1) cr by force
  have "Name ?r = Name p" "geometry ?r = geometry p" "closest_name ?r = Name q"
    "closest_geometry ?r = geometry q"
    by (simp_all add: with_closest_def)
  with df mem f show ?thesis by blast
qed

theorem first_minimum_wins_witness:
  "(0, \<lparr>Name = ''Ben A'', Height_m = 1000, Height_ft = 3281, class_2021 = Some ''Munro'',
        geometry = (0, 0)\<rparr>) \<in> set (only_munros (munros_geo sample_munros))
   \<and> only_munro_tops (munros_geo sample_munros) \<noteq> []
   \<and> distance (3, 4) (0, 0) = distance (- 3, 4) (0, 0)
   \<and> (\<exists>df r. only_munros_matched sample_munros = Inr df \<and> (0, r) \<in> set df
         \<and> closest_name r = ''Top B'')"
proof -
  let ?p = "\<lparr>Name = ''Ben A'', Height_m = 1000, Height_ft = 3281,
              class_2021 = Some ''Munro'', geometry = (0, 0)\<rparr>"
  have h1: "(0, ?p) \<in> set (only_munros (munros_geo sample_munros))"
    by (simp add: sample_A)
  have h2: "only_munro_tops (munros_geo sample_munros) \<noteq> []"
    by (simp add: sample_B)
  have tie: "distance (3, 4) (0, 0) = distance (- 3, 4) (0, 0)"
    by (simp add: distance_def)
  from first_minimum_wins [OF h1 h2] obtain df r j q where
    df: "only_munros_matched sample_munros = Inr df" and r: "(0, r) \<in> set df"
    and f: "find (\<lambda>(j, q). distance (geometry q) (geometry ?p) =
                      Min ((\<lambda>r. distance (geometry r) (geometry ?p))
                             ` snd ` set (only_munro_tops (munros_geo sample_munros))))
                  (only_munro_tops (munros_geo sample_munros)) = Some (j, q)"
    and n: "closest_name r = Name q"
    by blast
  from f have "Name q = ''Top B''"
    by (auto simp: sample_B distance_def sqrt_25 sqrt_100)
  with df r n h1 h2 tie show ?thesis by auto
qed

text \<open>
  C7, as the script behaves. For two frames of Munro Tops with the same rows in any
  order, the recorded distances are the same (and so is any error); the whole result,
  matched peaks included, is the same when no Munro has two different rows at its
  minimum distance.
\<close>

theorem permuted_tops:
  assumes "distinct (map fst munros)"
    and "distinct (map fst tops)" and "distinct (map fst tops')"
    and "mset (map snd tops) = mset (map snd tops')"
  shows "map_sum id closest_distance_col (match_munros munros tops) =
           map_sum id closest_distance_col (match_munros munros tops')
         \<and> ((\<forall>(i, p)\<in>set munros. \<forall>q\<in>set (nearest_rows tops (geometry p)).
                \<forall>q'\<in>set (nearest_rows tops (geometry p)). q = q')
              \<longrightarrow> match_munros munros tops = match_munros munros tops')"
proof (cases "tops = []")
  case True
  with perm_rows_Nil [OF assms(4)] have "tops' = []" by simp
  with True show ?thesis by simp
next
  case False
  with perm_rows_Nil [OF assms(4)] have ne': "tops' \<noteq> []" by simp
  note ne = False
  have dist: "map_sum id closest_distance_col (match_munros munros tops) =
           map_sum id closest_distance_col (match_munros munros tops')"
  proof (cases "munros = []")
    case True
    then show ?thesis by (simp add: match_munros_Nil)
  next
    case False
    have "distance x (geometry (projr (closest_row tops x))) / 1000 =
          distance x (geometry (projr (closest_row tops' x))) / 1000" for x
      using closest_row_km [OF ne assms(2), of x] closest_row_km [OF ne' assms(3), of x]
        min_km_direct_spec_perm [OF assms(4), of x]
      by (metis Inr_inject)
    then show ?thesis
      by (simp add: match_munros_eq [OF False assms(1) ne assms(2)]
          match_munros_eq [OF False assms(1) ne' assms(3)]
          closest_distance_col_def case_prod_unfold with_closest_def)
  qed
  have same: "match_munros munros tops = match_munros munros tops'"
    if u: "\<forall>(i, p)\<in>set munros. \<forall>q\<in>set (nearest_rows tops (geometry p)).
                \<forall>q'\<in>set (nearest_rows tops (geometry p)). q = q'"
  proof -
    have "closest_row tops (geometry p) = closest_row tops' (geometry p)"
      if ip: "(i, p) \<in> set munros" for i p
    proof -
      from closest_row_nearest [OF ne assms(2), of "geometry p"] obtain q where
        q: "closest_row tops (geometry p) = Inr q" "q \<in> set (nearest_rows tops (geometry p))"
        by blast
      from closest_row_nearest [OF ne' assms(3), of "geometry p"] obtain q' where
        q': "closest_row tops' (geometry p) = Inr q'" "q' \<in> set (nearest_rows tops' (geometry p))"
        by blast
      from q'(2) nearest_rows_perm [OF assms(4), of "geometry p"]
      have "q' \<in> set (nearest_rows tops (geometry p))" by simp
      with u ip q(2) have "q = q'" by blast
      with q(1) q'(1) show ?thesis by simp
    qed
    then have "closest_points munros tops = closest_points munros tops'"
      unfolding closest_points_def by (intro apply_rows_cong) auto
    then show ?thesis by (simp add: match_munros_def)
  qed
  from dist same show ?thesis by blast
qed

theorem permuted_tops_witness:
  "distinct (map fst [(0 :: nat, sample_peak ''Ben A'' (Some ''Munro'') 0 0)])
   \<and> distinct (map fst [(1 :: nat, sample_peak ''Top B'' (Some ''Munro Top'') 3 4),
                         (5, sample_peak ''Top F'' (Some ''Munro Top'') 6 8)])
   \<and> distinct (map fst [(5 :: nat, sample_peak ''Top F'' (Some ''Munro Top'') 6 8),
                         (1, sample_peak ''Top B'' (Some ''Munro Top'') 3 4)])
   \<and> mset (map snd [(1 :: nat, sample_peak ''Top B'' (Some ''Munro Top'') 3 4),
                     (5, sample_peak ''Top F'' (Some ''Munro Top'') 6 8)])
       = mset (map snd [(5 :: nat, sample_peak ''Top F'' (Some ''Munro Top'') 6 8),
                        (1, sample_peak ''Top B'' (Some ''Munro Top'') 3 4)])
   \<and> nearest_rows [(1, sample_peak ''Top B'' (Some ''Munro Top'') 3 4),
                    (5, sample_peak ''Top F'' (Some ''Munro Top'') 6 8)] (0, 0)
       = [sample_peak ''Top B'' (Some ''Munro Top'') 3 4]
   \<and> match_munros [(0, sample_peak ''Ben A'' (Some ''Munro'') 0 0)]
        [(1, sample_peak ''Top B'' (Some ''Munro Top'') 3 4),
         (5, sample_peak ''Top F'' (Some ''Munro Top'') 6 8)]
       = match_munros [(0, sample_peak ''Ben A'' (Some ''Munro'') 0 0)]
           [(5, sample_peak ''Top F'' (Some ''Munro Top'') 6 8),
            (1, sample_peak ''Top B'' (Some ''Munro Top'') 3 4)]"
proof -
  let ?A = "[(0 :: nat, sample_peak ''Ben A'' (Some ''Munro'') 0 0)]"
  let ?B = "[(1 :: nat, sample_peak ''Top B'' (Some ''Munro Top'') 3 4),
             (5, sample_peak ''Top F'' (Some ''Munro Top'') 6 8)]"
  let ?B' = "[(5 :: nat, sample_peak ''Top F'' (Some ''Munro Top'') 6 8),
              (1, sample_peak ''Top B'' (Some ''Munro Top'') 3 4)]"
  have h1: "distinct (map fst ?A)" by simp
  have h2: "distinct (map fst ?B)" by simp
  have h3: "distinct (map fst ?B')" by simp
  have h4: "mset (map snd ?B) = mset (map snd ?B')" by simp
  have n: "nearest_rows ?B (0, 0) = [sample_peak ''Top B'' (Some ''Munro Top'') 3 4]"
    by (simp add: nearest_rows_def sample_peak_def distance_def)
  have u: "\<forall>(i, p)\<in>set ?A. \<forall>q\<in>set (nearest_rows ?B (geometry p)).
             \<forall>q'\<in>set (nearest_rows ?B (geometry p)). q = q'"
    using n by (simp add: sample_peak_def)
  from permuted_tops [OF h1 h2 h3 h4] u have "match_munros ?A ?B = match_munros ?A ?B'"
    by blast
  with h1 h2 h3 h4 n show ?thesis by blast
qed

text \<open>
  C7 as stated fails when two Munro Tops are equally near: in the sample data Ben A is as
  far from Top B as from Top D, and exchanging these two rows of the CSV, which permutes
  the rows of \<^verbatim>\<open>only_munro_tops\<close> and leaves \<^verbatim>\<open>only_munros\<close> as it is, changes the name
  recorded for Ben A from Top B to Top D.
\<close>

theorem permuted_tops_counterexample:
  "only_munros (munros_geo sample_swapped) = only_munros (munros_geo sample_munros)
   \<and> mset (map snd (only_munro_tops (munros_geo sample_swapped))) =
       mset (map snd (only_munro_tops (munros_geo sample_munros)))
   \<and> only_munros_matched sample_swapped \<noteq> only_munros_matched sample_munros"
proof -
  have "mset (map snd (only_munro_tops (munros_geo sample_swapped))) =
       mset (map snd (only_munro_tops (munros_geo sample_munros)))"
    by (simp add: sample_B sample_swapped_B)
  moreover have "only_munros_matched sample_swapped \<noteq> only_munros_matched sample_munros"
    using sample_matched_names sample_swapped_names by auto
  ultimately show ?thesis using sample_swapped_A by simp
qed

text \<open>
  C8. With at least one Munro Top, \<^verbatim>\<open>closest_points\<close> has exactly one row for every row of
  \<^verbatim>\<open>only_munros\<close>, under the same label; the frame the script returns then has as many
  distances as there are Munros, and the mean it computes, the sum divided by the number
  of Munros, is the sum of the distances divided by their count.
\<close>

theorem one_match_per_munro:
  assumes "only_munro_tops (munros_geo rows) \<noteq> []"
  shows "(\<exists>cp. closest_points (only_munros (munros_geo rows)) (only_munro_tops (munros_geo rows))
                 = Inr cp
              \<and> map fst cp = map fst (only_munros (munros_geo rows)))
         \<and> (only_munros (munros_geo rows) \<noteq> [] \<longrightarrow>
              (\<exists>df. only_munros_matched rows = Inr df
                 \<and> map fst df = map fst (only_munros (munros_geo rows))
                 \<and> length (closest_distance_col df) = length (only_munros (munros_geo rows))
                 \<and> dist_mean df =
                     Inr (py_sum (closest_distance_col df)
                            / real (length (only_munros (munros_geo rows))))
                 \<and> dist_mean df =
                     Inr (sum_list (closest_distance_col df)
                            / real (length (closest_distance_col df)))))"
proof -
  let ?A = "only_munros (munros_geo rows)" and ?B = "only_munro_tops (munros_geo rows)"
  have cp: "\<exists>cp. closest_points ?A ?B = Inr cp \<and> map fst cp = map fst ?A"
    by (simp add: closest_points_eq [OF assms distinct_only_munro_tops] case_prod_unfold)
  have "\<exists>df. only_munros_matched rows = Inr df \<and> map fst df = map fst ?A
           \<and> length (closest_distance_col df) = length ?A
           \<and> dist_mean df = Inr (py_sum (closest_distance_col df) / real (length ?A))
           \<and> dist_mean df =
               Inr (sum_list (closest_distance_col df) / real (length (closest_distance_col df)))"
    if ne: "?A \<noteq> []"
  proof -
    let ?df = "map (\<lambda>(i, p). (i, with_closest p (projr (closest_row ?B (geometry p))))) ?A"
    have df: "only_munros_matched rows = Inr ?df"
      by (rule only_munros_matched_eq [OF ne assms])
    have lab: "map fst ?df = map fst ?A" by (simp add: case_prod_unfold)
    have len: "length (closest_distance_col ?df) = length ?A"
      by (simp add: closest_distance_col_def)
    have m1: "dist_mean ?df = Inr (py_sum (closest_distance_col ?df) / real (length ?A))"
      using ne by (simp add: dist_mean_def)
    have m2: "dist_mean ?df =
        Inr (sum_list (closest_distance_col ?df) / real (length (closest_distance_col ?df)))"
      using m1 by (simp only: len py_sum_sum_list)
    from df lab len m1 m2 show ?thesis by blast
  qed
  with cp show ?thesis by blast
qed

theorem one_match_per_munro_witness:
  "only_munro_tops (munros_geo sample_munros) \<noteq> []
   \<and> only_munros (munros_geo sample_munros) \<noteq> []
   \<and> (\<exists>df. only_munros_matched sample_munros = Inr df
         \<and> length (closest_distance_col df) = 2
         \<and> dist_mean df = Inr (sum_list (closest_distance_col df) / 2))"
proof -
  have h: "only_munro_tops (munros_geo sample_munros) \<noteq> []" by (simp add: sample_B)
  have a: "only_munros (munros_geo sample_munros) \<noteq> []" by (simp add: sample_A)
  have l: "length (only_munros (munros_geo sample_munros)) = 2" by (simp add: sample_A)
  from one_match_per_munro [OF h] a obtain df where
    "only_munros_matched sample_munros = Inr df"
    "length (closest_distance_col df) = length (only_munros (munros_geo sample_munros))"
    "dist_mean df = Inr (sum_list (closest_distance_col df) / real (length (closest_distance_col df)))"
    by blast
  with l h a show ?thesis by auto
qed

text \<open>
  C9. The distance column computed in two phases (the row with the least distance in
  metres is looked up, then the distance to its geometry is computed again and divided
  by 1000) is, Munro by Munro, the minimum of the kilometre distances taken directly.
  Dividing a series by 1000 does not change its \<open>idxmin\<close>, and the distance computed
  again is the minimum of the series that the lookup used.
\<close>

theorem two_phase_equals_direct:
  assumes "only_munros (munros_geo rows) \<noteq> []"
    and "only_munro_tops (munros_geo rows) \<noteq> []"
  shows "\<exists>df. only_munros_matched rows = Inr df
           \<and> map fst df = map fst (only_munros (munros_geo rows))
           \<and> map Inr (closest_distance_col df) =
               map (\<lambda>(i, p). min_km_direct_spec (only_munro_tops (munros_geo rows)) (geometry p))
                 (only_munros (munros_geo rows))
           \<and> (\<forall>(i, r)\<in>set df.
                 idxmin (map (\<lambda>(j, d). (j, d / 1000))
                           (geometry_distance (only_munro_tops (munros_geo rows)) (geometry r)))
                   = idxmin (geometry_distance (only_munro_tops (munros_geo rows)) (geometry r))
                 \<and> distance (geometry r) (closest_geometry r) =
                     Min (snd ` set (geometry_distance (only_munro_tops (munros_geo rows))
                                       (geometry r))))"
proof -
  let ?A = "only_munros (munros_geo rows)" and ?B = "only_munro_tops (munros_geo rows)"
  let ?df = "map (\<lambda>(i, p). (i, with_closest p (projr (closest_row ?B (geometry p))))) ?A"
  have df: "only_munros_matched rows = Inr ?df"
    by (rule only_munros_matched_eq [OF assms])
  have lab: "map fst ?df = map fst ?A" by (simp add: case_prod_unfold)
  have col: "map Inr (closest_distance_col ?df) =
      map (\<lambda>(i, p). min_km_direct_spec ?B (geometry p)) ?A"
    using closest_row_km [OF assms(2) distinct_only_munro_tops]
    by (simp add: closest_distance_col_def case_prod_unfold with_closest_def)
  have sel: "distance (geometry r) (closest_geometry r) =
      Min (snd ` set (geometry_distance ?B (geometry r)))" if "(i, r) \<in> set ?df" for i r
  proof -
    from that obtain p where r: "r = with_closest p (projr (closest_row ?B (geometry p)))"
      by auto
    from closest_row_min [OF assms(2) distinct_only_munro_tops, of "geometry p"]
    have "distance (geometry (projr (closest_row ?B (geometry p)))) (geometry p) =
        Min ((\<lambda>r. distance (geometry r) (geometry p)) ` snd ` set ?B)"
      by auto
    moreover have "snd ` set (geometry_distance ?B (geometry p)) =
        (\<lambda>r. distance (geometry r) (geometry p)) ` snd ` set ?B"
      by (force simp: geometry_distance_def)
    ultimately show ?thesis
      by (simp add: r with_closest_def distance_commute [of "geometry p"])
  qed
  from df lab col sel idxmin_scale show ?thesis by blast
qed

theorem two_phase_equals_direct_witness:
  "only_munros (munros_geo sample_munros) \<noteq> []
   \<and> only_munro_tops (munros_geo sample_munros) \<noteq> []
   \<and> (\<exists>df. only_munros_matched sample_munros = Inr df
         \<and> map Inr (closest_distance_col df) =
             [min_km_direct_spec (only_munro_tops (munros_geo sample_munros)) (0, 0),
              min_km_direct_spec (only_munro_tops (munros_geo sample_munros)) (6, 8)])"
proof -
  have h: "only_munro_tops (munros_geo sample_munros) \<noteq> []" by (simp add: sample_B)
  have a: "only_munros (munros_geo sample_munros) \<noteq> []" by (simp add: sample_A)
  from two_phase_equals_direct [OF a h] obtain df where
    df: "only_munros_matched sample_munros = Inr df"
    and col: "map Inr (closest_distance_col df) =
               map (\<lambda>(i, p). min_km_direct_spec (only_munro_tops (munros_geo sample_munros)) (geometry p))
                 (only_munros (munros_geo sample_munros))"
    by blast
  from col have "map Inr (closest_distance_col df) =
             [min_km_direct_spec (only_munro_tops (munros_geo sample_munros)) (0, 0),
              min_km_direct_spec (only_munro_tops (munros_geo sample_munros)) (6, 8)]"
    by (simp add: sample_A)
  with df h a show ?thesis by (intro conjI exI [of _ df])
qed

text \<open>
  C10. Every match pairs a row classified \<^verbatim>\<open>Munro\<close> with a row classified
  \<^verbatim>\<open>Munro Top\<close>; the label of the matched row is never the label of the Munro, whatever
  the coordinates are. In the sample data Ben E and Top F have the same coordinates and
  are matched at distance 0 under the labels 4 and 5.
\<close>

theorem matched_rows_distinct:
  assumes "(i, p) \<in> set (only_munros (munros_geo rows))"
    and "only_munro_tops (munros_geo rows) \<noteq> []"
  shows "\<exists>df r j q. only_munros_matched rows = Inr df \<and> (i, r) \<in> set df
           \<and> idxmin (geometry_distance (only_munro_tops (munros_geo rows)) (geometry p)) = Inr j
           \<and> loc (only_munro_tops (munros_geo rows)) j = Inr q
           \<and> Name r = Name p \<and> geometry r = geometry p
           \<and> closest_name r = Name q \<and> closest_geometry r = geometry q
           \<and> class_2021 r = Some ''Munro'' \<and> class_2021 q = Some ''Munro Top''
           \<and> i < length rows \<and> j < length rows \<and> j \<noteq> i
           \<and> csv_2021 (rows ! i) = Some ''Munro'' \<and> csv_2021 (rows ! j) = Some ''Munro Top''"
proof -
  let ?A = "only_munros (munros_geo rows)" and ?B = "only_munro_tops (munros_geo rows)"
  from assms(1) have ne: "?A \<noteq> []" by auto
  from closest_row_min [OF assms(2) distinct_only_munro_tops, of "geometry p"]
  obtain j q where jq: "(j, q) \<in> set ?B"
    and im: "idxmin (geometry_distance ?B (geometry p)) = Inr j"
    and cr: "closest_row ?B (geometry p) = Inr q"
    by blast
  from jq distinct_only_munro_tops [of rows] have "map_of ?B j = Some q" by simp
  then have lc: "loc ?B j = Inr q" by (simp add: loc_def)
  from assms(1) have i: "i < length rows" "csv_2021 (rows ! i) = Some ''Munro''"
    "class_2021 p = Some ''Munro''"
    by (auto simp: only_munros_def set_partition)
  from jq have j: "j < length rows" "csv_2021 (rows ! j) = Some ''Munro Top''"
    "class_2021 q = Some ''Munro Top''"
    by (auto simp: only_munro_tops_def set_partition)
  from i(2) j(2) have neq: "j \<noteq> i" by auto
  let ?r = "with_closest p q"
  have df: "only_munros_matched rows =
      Inr (map (\<lambda>(i, p). (i, with_closest p (projr (closest_row ?B (geometry p))))) ?A)"
    by (rule only_munros_matched_eq [OF ne assms(2)])
  have mem: "(i, ?r) \<in> set (map (\<lambda>(i, p). (i, with_closest p (projr (closest_row ?B (geometry p))))) ?A)"
    using assms(1) cr by force
  have "closest_name ?r = Name q" "closest_geometry ?r = geometry q"
    "class_2021 ?r = Some ''Munro''" "Name ?r = Name p" "geometry ?r = geometry p"
    by (simp_all add: with_closest_def i(3))
  with df mem im lc i(1,2) j neq show ?thesis by blast
qed

theorem matched_rows_distinct_witness:
  "(4, \<lparr>Name = ''Ben E'', Height_m = 1000, Height_ft = 3281, class_2021 = Some ''Munro'',
        geometry = (6, 8)\<rparr>) \<in> set (only_munros (munros_geo sample_munros))
   \<and> only_munro_tops (munros_geo sample_munros) \<noteq> []
   \<and> (\<exists>df r. only_munros_matched sample_munros = Inr df \<and> (4, r) \<in> set df
         \<and> idxmin (geometry_distance (only_munro_tops (munros_geo sample_munros)) (6, 8)) = Inr 5
         \<and> closest_name r = ''Top F'' \<and> closest_geometry r = geometry r
         \<and> distance (geometry r) (closest_geometry r) = 0)"
proof -
  let ?p = "\<lparr>Name = ''Ben E'', Height_m = 1000, Height_ft = 3281,
              class_2021 = Some ''Munro'', geometry = (6, 8)\<rparr>"
  have h1: "(4, ?p) \<in> set (only_munros (munros_geo sample_munros))"
    by (simp add: sample_A)
  have h2: "only_munro_tops (munros_geo sample_munros) \<noteq> []"
    by (simp add: sample_B)
  from matched_rows_distinct [OF h1 h2] obtain df r j q where
    df: "only_munros_matched sample_munros = Inr df" and r: "(4, r) \<in> set df"
    and im: "idxmin (geometry_distance (only_munro_tops (munros_geo sample_munros)) (geometry ?p)) = Inr j"
    and lc: "loc (only_munro_tops (munros_geo sample_munros)) j = Inr q"
    and n: "closest_name r = Name q" "closest_geometry r = geometry q"
    and g: "geometry r = geometry ?p"
    by blast
  from im have j: "j = 5"
    by (auto simp: sample_B geometry_distance_def distance_def)
  from lc have q: "Name q = ''Top F''" "geometry q = (6, 8)"
    by (auto simp: j sample_B loc_def)
  have d: "distance (geometry r) (closest_geometry r) = 0"
    by (simp add: n q g distance_def)
  from df r im j n q g d h1 h2 show ?thesis by auto
qed

end
